theory Spec2Isabelle
  imports Complex_Main "HOL-Library.Log_Nat"
begin

section \<open>JavaScript built-ins used by the sources\<close>

text \<open>
  \<^verbatim>\<open>String.prototype.startsWith\<close>: the string begins with the given prefix.
\<close>

definition startsWith :: "string \<Rightarrow> string \<Rightarrow> bool" where
  "startsWith s p = (take (length p) s = p)"

text \<open>
  The number-to-string conversion of a template literal, for an array length
  (a natural number): its decimal digits.
\<close>

function decimal :: "nat \<Rightarrow> string" where
  "decimal n =
     (if n < 10 then [char_of (48 + n)]
      else decimal (n div 10) @ [char_of (48 + n mod 10)])"
  by pat_completeness auto
termination
  by (relation "measure id") auto

declare decimal.simps [simp del]

text \<open>
  \<^verbatim>\<open>s.replace(/^data:image\/(png|jpeg|jpg|webp);base64,/, "")\<close>: the pattern is
  anchored at the start of the string, is case sensitive, and can match only one of four
  literal prefixes; a match is removed, any other string is returned as it is.
\<close>

definition dataUrlPrefixes :: "string list" where
  "dataUrlPrefixes =
     map (\<lambda>t. ''data:image/'' @ t @ '';base64,'') [''png'', ''jpeg'', ''jpg'', ''webp'']"

fun replacePrefix :: "string list \<Rightarrow> string \<Rightarrow> string" where
  "replacePrefix [] s = s"
| "replacePrefix (p # ps) s =
     (if startsWith s p then drop (length p) s else replacePrefix ps s)"

definition stripDataUrl :: "string \<Rightarrow> string" where
  "stripDataUrl s = replacePrefix dataUrlPrefixes s"

text \<open>
  \<^verbatim>\<open>Promise.all\<close> over promises that all fulfil (the ones below never reject). Every
  promise owns the slot of its position in the array; when it settles, its value is stored
  in that slot. The schedule lists the positions in the order in which the promises
  settle. The joint promise fulfils, with the slots read in array order, once every slot
  is filled; while a slot is empty it stays pending, which is the value \<open>None\<close>.
\<close>

definition settle :: "'a list \<Rightarrow> nat \<Rightarrow> 'a option list \<Rightarrow> 'a option list" where
  "settle ps i slots = (if i < length slots then slots[i := Some (ps ! i)] else slots)"

definition promiseAll :: "nat list \<Rightarrow> 'a list \<Rightarrow> 'a list option" where
  "promiseAll schedule ps =
     (let slots = fold (settle ps) schedule (replicate (length ps) None)
      in if list_all (\<lambda>v. v \<noteq> None) slots then Some (map the slots) else None)"

section \<open>The generation service (src/services/geminiService.ts)\<close>

subsection \<open>The request sent to the remote model\<close>

record inlineData =
  mimeType :: string
  data :: string

datatype part = Text string | InlineData inlineData

record request =
  model :: string
  parts :: "part list"
  aspectRatio :: string

subsection \<open>What the remote model answers\<close>

record responseInline =
  r_data :: "string option"

record responsePart =
  r_inlineData :: "responseInline option"

record responseContent =
  r_parts :: "responsePart list option"

record candidate =
  r_content :: "responseContent option"

record response =
  r_candidates :: "candidate list option"

text \<open>
  One call of \<^verbatim>\<open>ai.models.generateContent\<close> either rejects (with a message) or resolves
  with a response. The remote model is not deterministic, so the answer may depend on
  which of the calls it is: a remote capability maps the position of the call in dispatch
  order, and the request, to the answer.
\<close>

datatype remoteResult = Rejects string | Resolves response

type_synonym remote = "nat \<Rightarrow> request \<Rightarrow> remoteResult"

datatype console = Warn string string | Error string string

subsection \<open>generateMangaPanel\<close>

definition NL :: char where
  "NL = CHR 0x0A"

definition APOS :: char where
  "APOS = CHR 0x27"

definition promptText :: "nat \<Rightarrow> string \<Rightarrow> string" where
  "promptText n additionalPrompt =
     [NL] @
     ''      You are a professional manga artist assistant.'' @ [NL] @
     ''      '' @ [NL] @
     ''      INPUTS:'' @ [NL] @
     ''      1. Character Sheets (First '' @ decimal n @
       '' images): These define the character'' @ [APOS] @
       ''s identity (hair, face, costume, accessories). Combine these details to understand the character perfectly.'' @ [NL] @
     ''      2. Pose & Composition Reference (Last image): This defines the exact body pose, camera angle, and perspective.'' @ [NL] @
     [NL] @
     ''      TASK:'' @ [NL] @
     ''      Create a high-quality manga/anime style illustration of the character defined in the Character Sheets, acting out the scene in the Pose Reference.'' @ [NL] @
     [NL] @
     ''      RULES:'' @ [NL] @
     ''      - RESOLUTION: Generate in 1920x1080 (16:9) landscape format.'' @ [NL] @
     ''      - STRICT CHARACTER CONSISTENCY: The face, hair, and outfit must look exactly like the provided Character Sheets.'' @ [NL] @
     ''      - EXACT POSE: The character'' @ [APOS] @
       ''s limb positioning and viewing angle must match the Pose Reference exactly.'' @ [NL] @
     ''      - STYLE: Use a clean, professional manga art style (monochrome or color based on input style). '' @ [NL] @
     ''      '' @
       (if additionalPrompt \<noteq> [] then ''Additional Instructions: '' @ additionalPrompt else []) @ [NL] @
     ''    ''"

text \<open>
  The loop over the parts of the first candidate: the first part whose inline data is
  present and truthy (a non-empty string) is returned as a PNG data URL.
\<close>

fun firstInlineImage :: "responsePart list \<Rightarrow> string option" where
  "firstInlineImage [] = None"
| "firstInlineImage (p # ps) =
     (case r_inlineData p of
        None \<Rightarrow> firstInlineImage ps
      | Some b \<Rightarrow>
          (case r_data b of
             None \<Rightarrow> firstInlineImage ps
           | Some d \<Rightarrow>
               if d \<noteq> [] then Some (''data:image/png;base64,'' @ d)
               else firstInlineImage ps))"

text \<open>
  Reading the response. A first candidate without content, or content without parts,
  makes the property access throw a TypeError (\<open>Inl\<close>), which the enclosing
  \<^verbatim>\<open>try\<close> of the caller catches.
\<close>

definition readResponse :: "response \<Rightarrow> string + string option" where
  "readResponse r =
     (case r_candidates r of
        None \<Rightarrow> Inr None
      | Some [] \<Rightarrow> Inr None
      | Some (c # cs) \<Rightarrow>
          (case r_content c of
             None \<Rightarrow> Inl ''TypeError''
           | Some ct \<Rightarrow>
               (case r_parts ct of
                  None \<Rightarrow> Inl ''TypeError''
                | Some ps \<Rightarrow> Inr (firstInlineImage ps))))"

record single =
  issued :: request
  warnings :: "console list"
  image :: "string option"

text \<open>
  The helper \<^verbatim>\<open>generateSingleImage\<close>, a closure over the prompt text, the character
  parts and the cleaned pose. It issues one request, and turns a rejection, an exception
  or a response without an image into \<^verbatim>\<open>null\<close> (\<open>None\<close>); only the first
  two are logged.
\<close>

definition generateSingleImage ::
    "remote \<Rightarrow> string \<Rightarrow> part list \<Rightarrow> string \<Rightarrow> nat \<Rightarrow> single" where
  "generateSingleImage rem ptext characterParts cleanPose i =
     (let req = \<lparr>model = ''gemini-2.5-flash-image'',
                 parts = [Text ptext] @ characterParts @
                         [InlineData \<lparr>mimeType = ''image/png'', data = cleanPose\<rparr>],
                 aspectRatio = ''16:9''\<rparr>
      in case rem i req of
           Rejects e \<Rightarrow>
             \<lparr>issued = req,
              warnings = [Warn ''Single generation failed, retrying or skipping'' e],
              image = None\<rparr>
         | Resolves r \<Rightarrow>
             (case readResponse r of
                Inl e \<Rightarrow>
                  \<lparr>issued = req,
                   warnings = [Warn ''Single generation failed, retrying or skipping'' e],
                   image = None\<rparr>
              | Inr v \<Rightarrow> \<lparr>issued = req, warnings = [], image = v\<rparr>))"

definition numberOfVariations :: nat where
  "numberOfVariations = 10"

text \<open>
  A run of \<^verbatim>\<open>generateMangaPanel\<close>: the requests issued (in dispatch order), what was
  written to the console, and the outcome of the returned promise: \<open>None\<close> while it is
  pending, \<open>Some (Inl message)\<close> when it rejects with \<^verbatim>\<open>new Error(message)\<close>,
  \<open>Some (Inr images)\<close> when it fulfils.
\<close>

record run =
  calls :: "request list"
  logged :: "console list"
  outcome :: "(string + string list) option"

definition generateMangaPanel ::
    "remote \<Rightarrow> nat list \<Rightarrow> string list \<Rightarrow> string \<Rightarrow> string \<Rightarrow> run" where
  "generateMangaPanel rem schedule characterImageBase64s poseImageBase64 additionalPrompt =
     (let cleanPose = stripDataUrl poseImageBase64;
          characterParts =
            map (\<lambda>img. InlineData \<lparr>mimeType = ''image/png'', data = stripDataUrl img\<rparr>)
              characterImageBase64s;
          ptext = promptText (length characterImageBase64s) additionalPrompt;
          promises =
            map (generateSingleImage rem ptext characterParts cleanPose)
              [0 ..< numberOfVariations];
          warned =
            concat (map (\<lambda>i. warnings (promises ! i))
              (filter (\<lambda>i. i < numberOfVariations) schedule))
      in case promiseAll schedule (map image promises) of
           None \<Rightarrow> \<lparr>calls = map issued promises, logged = warned, outcome = None\<rparr>
         | Some results \<Rightarrow>
             (let validImages = map the (filter (\<lambda>img. img \<noteq> None) results)
              in if length validImages = 0
                 then \<lparr>calls = map issued promises,
                       logged = warned @
                         [Error ''Gemini API Error:'' ''Failed to generate any images.''],
                       outcome = Some (Inl ''Failed to generate any images.'')\<rparr>
                 else \<lparr>calls = map issued promises, logged = warned,
                       outcome = Some (Inr validImages)\<rparr>))"

subsection \<open>Notions used to state the properties of a run\<close>

text \<open>
  The one payload that a run builds from its arguments: the instruction text, the
  character images, then the pose image, and the fixed aspect ratio.
\<close>

definition payload :: "string list \<Rightarrow> string \<Rightarrow> string \<Rightarrow> request" where
  "payload characterImageBase64s poseImageBase64 additionalPrompt =
     \<lparr>model = ''gemini-2.5-flash-image'',
      parts =
        Text (promptText (length characterImageBase64s) additionalPrompt) #
        map (\<lambda>img. InlineData \<lparr>mimeType = ''image/png'', data = stripDataUrl img\<rparr>)
          characterImageBase64s @
        [InlineData \<lparr>mimeType = ''image/png'', data = stripDataUrl poseImageBase64\<rparr>],
      aspectRatio = ''16:9''\<rparr>"

text \<open>
  What an answer of the remote capability carries, by the contract of its interface: the
  inline image payloads among the parts of a candidate result, and the image returned by
  a call, which is the first inline payload of the first candidate result, as a PNG data
  URL. A rejected call, a response with no or an empty list of candidates, a first
  candidate without content or parts, and parts without inline data return no image.
\<close>

definition inlinePayloads :: "responsePart list \<Rightarrow> string list" where
  "inlinePayloads ps =
     concat (map (\<lambda>p. case r_inlineData p of
                          None \<Rightarrow> []
                        | Some b \<Rightarrow> (case r_data b of None \<Rightarrow> [] | Some d \<Rightarrow> [d])) ps)"

definition returnedImage :: "remoteResult \<Rightarrow> string option" where
  "returnedImage answer =
     (case answer of
        Rejects e \<Rightarrow> None
      | Resolves r \<Rightarrow>
          (case r_candidates r of
             Some (c # cs) \<Rightarrow>
               (case r_content c of
                  Some ct \<Rightarrow>
                    (case r_parts ct of
                       Some ps \<Rightarrow>
                         (case filter (\<lambda>d. d \<noteq> []) (inlinePayloads ps) of
                            d # ds \<Rightarrow> Some (''data:image/png;base64,'' @ d)
                          | [] \<Rightarrow> None)
                     | None \<Rightarrow> None)
                | None \<Rightarrow> None)
           | _ \<Rightarrow> None))"

text \<open>
  The image that the call at position \<open>i\<close> yields, read off the answer of the
  remote capability: the call succeeds with an image when this is \<open>Some\<close>, and it
  fails or returns no image when this is \<open>None\<close>.
\<close>

definition imageOf :: "remote \<Rightarrow> request \<Rightarrow> nat \<Rightarrow> string option" where
  "imageOf rem req i =
     (case rem i req of
        Rejects e \<Rightarrow> None
      | Resolves r \<Rightarrow> (case readResponse r of Inl e \<Rightarrow> None | Inr v \<Rightarrow> v))"

text \<open>The images of the successful calls, taken in the order of the given positions.\<close>

definition imagesAlong :: "remote \<Rightarrow> request \<Rightarrow> nat list \<Rightarrow> string list" where
  "imagesAlong rem req positions = List.map_filter (imageOf rem req) positions"

text \<open>
  A schedule in which each of the ten calls settles, exactly once: a permutation of the
  positions \<open>0, \<dots>, 9\<close>.
\<close>

definition isSchedule :: "nat list \<Rightarrow> bool" where
  "isSchedule schedule = (sort schedule = [0 ..< numberOfVariations])"

subsection \<open>Stub remote capabilities for concrete runs\<close>

text \<open>A response whose first candidate carries one inline image with the given data.\<close>

definition imageResponse :: "string \<Rightarrow> remoteResult" where
  "imageResponse d =
     Resolves \<lparr>r_candidates = Some [\<lparr>r_content = Some \<lparr>r_parts = Some
       [\<lparr>r_inlineData = Some \<lparr>r_data = Some d\<rparr>\<rparr>]\<rparr>\<rparr>]\<rparr>"

text \<open>A remote capability that answers the call at position \<open>i\<close> with the \<open>i\<close>-th given answer.\<close>

definition stubRemote :: "remoteResult list \<Rightarrow> remote" where
  "stubRemote answers i req =
     (if i < length answers then answers ! i else Rejects ''no answer'')"

text \<open>Success for the first seven calls, failure for the last three.\<close>

definition sevenOfTen :: remote where
  "sevenOfTen =
     stubRemote
       [imageResponse ''A'', imageResponse ''B'', imageResponse ''C'', imageResponse ''D'',
        imageResponse ''E'', imageResponse ''F'', imageResponse ''G'',
        Rejects ''quota'', Rejects ''quota'', Rejects ''quota'']"

text \<open>
  Four calls return an image (positions 0, 3, 6 and 9; the call at position 3 in its second
  part). The others are rejected or resolve without an image: an empty list of candidates,
  no list of candidates, a first candidate without content, an inline part with empty
  data, and an image in the second candidate only.
\<close>

definition fourOfTen :: remote where
  "fourOfTen =
     stubRemote
       [imageResponse ''A'',
        Rejects ''quota'',
        Resolves \<lparr>r_candidates = Some []\<rparr>,
        Resolves \<lparr>r_candidates = Some [\<lparr>r_content = Some \<lparr>r_parts = Some
          [\<lparr>r_inlineData = None\<rparr>, \<lparr>r_inlineData = Some \<lparr>r_data = Some ''B''\<rparr>\<rparr>]\<rparr>\<rparr>]\<rparr>,
        Resolves \<lparr>r_candidates = None\<rparr>,
        Resolves \<lparr>r_candidates = Some [\<lparr>r_content = None\<rparr>]\<rparr>,
        imageResponse ''C'',
        Resolves \<lparr>r_candidates = Some [\<lparr>r_content = Some \<lparr>r_parts = Some
          [\<lparr>r_inlineData = Some \<lparr>r_data = Some []\<rparr>\<rparr>, \<lparr>r_inlineData = Some \<lparr>r_data = None\<rparr>\<rparr>]\<rparr>\<rparr>]\<rparr>,
        Resolves \<lparr>r_candidates = Some
          [\<lparr>r_content = Some \<lparr>r_parts = Some [\<lparr>r_inlineData = None\<rparr>]\<rparr>\<rparr>,
           \<lparr>r_content = Some \<lparr>r_parts = Some
             [\<lparr>r_inlineData = Some \<lparr>r_data = Some ''Z''\<rparr>\<rparr>]\<rparr>\<rparr>]\<rparr>,
        imageResponse ''D'']"

text \<open>A remote capability whose every call is rejected.\<close>

definition alwaysFails :: remote where
  "alwaysFails i req = Rejects ''unavailable''"

section \<open>The application (src/App.tsx)\<close>

record app =
  characterImages :: "string list"
  poseImage :: "string option"
  generatedImages :: "string list"
  isGenerating :: bool
  error :: "string option"
  customPrompt :: string

text \<open>
  A file handed over by the file picker or by a drop: its name, its declared content
  type, and what reading it gives: the base64 encoding of its bytes, or \<open>None\<close> when
  the read fails.
\<close>

record jsFile =
  file_name :: string
  file_type :: string
  file_base64 :: "string option"

text \<open>
  \<^verbatim>\<open>readFile\<close> wraps \<^verbatim>\<open>FileReader.readAsDataURL\<close> in a promise. A failed read fires
  the error handler first, so the promise rejects (\<open>Inl\<close>); a successful read resolves
  with the data URL of the file, which carries the declared type (a file without a type
  is given the type application/octet-stream).
\<close>

definition readFile :: "jsFile \<Rightarrow> string + string" where
  "readFile f =
     (case file_base64 f of
        None \<Rightarrow> Inl ''NotReadableError''
      | Some b \<Rightarrow>
          Inr (''data:'' @
               (if file_type f = [] then ''application/octet-stream'' else file_type f) @
               '';base64,'' @ b))"

text \<open>The loop of \<^verbatim>\<open>handleCharacterFiles\<close>, with \<open>newImages\<close> and the console as accumulators.\<close>

fun readCharacterFiles ::
    "jsFile list \<Rightarrow> string list \<Rightarrow> console list \<Rightarrow> string list \<times> console list" where
  "readCharacterFiles [] newImages out = (newImages, out)"
| "readCharacterFiles (f # fs) newImages out =
     (if startsWith (file_type f) ''image/'' then
        (case readFile f of
           Inr dataUrl \<Rightarrow> readCharacterFiles fs (newImages @ [dataUrl]) out
         | Inl e \<Rightarrow>
             readCharacterFiles fs newImages (out @ [Error ''Failed to read file'' (file_name f)]))
      else readCharacterFiles fs newImages out)"

definition handleCharacterFiles :: "jsFile list option \<Rightarrow> app \<Rightarrow> app \<times> console list" where
  "handleCharacterFiles files s =
     (case files of
        None \<Rightarrow> (s, [])
      | Some fs \<Rightarrow>
          (let s1 = s\<lparr>error := None\<rparr>;
               (newImages, out) = readCharacterFiles fs [] []
           in if length newImages > 0
              then (s1\<lparr>characterImages := characterImages s1 @ newImages\<rparr>, out)
              else (s1, out)))"

text \<open>
  \<^verbatim>\<open>handlePoseFile\<close> returns the new state and how its promise settles: \<open>None\<close> when
  it fulfils, \<open>Some reason\<close> when the read rejects, which nothing catches.
\<close>

definition handlePoseFile :: "jsFile option \<Rightarrow> app \<Rightarrow> app \<times> string option" where
  "handlePoseFile file s =
     (case file of
        None \<Rightarrow> (s, None)
      | Some f \<Rightarrow>
          if startsWith (file_type f) ''image/'' then
            (case readFile f of
               Inl e \<Rightarrow> (s, Some e)
             | Inr dataUrl \<Rightarrow> (s\<lparr>poseImage := Some dataUrl, error := None\<rparr>, None))
          else (s\<lparr>error := Some ''Please upload a valid image file.''\<rparr>, None))"

definition removeCharacterImage :: "nat \<Rightarrow> app \<Rightarrow> app" where
  "removeCharacterImage index s =
     s\<lparr>characterImages :=
         map snd (filter (\<lambda>(i, img). i \<noteq> index)
           (zip [0 ..< length (characterImages s)] (characterImages s)))\<rparr>"

text \<open>
  One run of \<^verbatim>\<open>handleGenerate\<close>: the state at the moment the batch is dispatched
  (\<open>None\<close> when a precondition fails and nothing is dispatched), the remote calls made,
  the console output, and the state once the handler is done (or, while the batch is
  pending, the state it waits in).
\<close>

record attempt =
  atDispatch :: "app option"
  remoteCalls :: "request list"
  consoleOut :: "console list"
  afterwards :: app

definition handleGenerate :: "remote \<Rightarrow> nat list \<Rightarrow> app \<Rightarrow> attempt" where
  "handleGenerate rem schedule s =
     (if length (characterImages s) = 0 then
        \<lparr>atDispatch = None, remoteCalls = [], consoleOut = [],
         afterwards = s\<lparr>error := Some ''Please upload at least one character sheet.''\<rparr>\<rparr>
      else
        (case (case poseImage s of None \<Rightarrow> None | Some p \<Rightarrow> if p = [] then None else Some p) of
           None \<Rightarrow>
             \<lparr>atDispatch = None, remoteCalls = [], consoleOut = [],
              afterwards = s\<lparr>error := Some ''Please upload a pose/composition reference.''\<rparr>\<rparr>
         | Some p \<Rightarrow>
             (let s1 = s\<lparr>isGenerating := True, error := None, generatedImages := []\<rparr>;
                  r = generateMangaPanel rem schedule (characterImages s) p (customPrompt s)
              in \<lparr>atDispatch = Some s1, remoteCalls = calls r, consoleOut = logged r,
                  afterwards =
                    (case outcome r of
                       None \<Rightarrow> s1
                     | Some (Inr results) \<Rightarrow>
                         s1\<lparr>generatedImages := results, isGenerating := False\<rparr>
                     | Some (Inl message) \<Rightarrow>
                         s1\<lparr>error :=
                              Some (if message \<noteq> [] then message
                                    else ''Something went wrong during generation.''),
                            isGenerating := False\<rparr>)\<rparr>)))"

text \<open>The state the component starts in.\<close>

definition initialApp :: app where
  "initialApp =
     \<lparr>characterImages = [], poseImage = None, generatedImages = [], isGenerating = False,
      error = None, customPrompt = []\<rparr>"

text \<open>A state that still shows the images and the error of an earlier attempt.\<close>

definition staleApp :: app where
  "staleApp =
     \<lparr>characterImages = [''c''], poseImage = Some ''p'', generatedImages = [''old''],
      isGenerating = False, error = Some ''old error'', customPrompt = []\<rparr>"

subsection \<open>Notions used to state the properties of the upload handlers\<close>

text \<open>
  The data URLs of the files whose declared type indicates an image and whose read
  succeeds, in the order of the files.
\<close>

definition acceptedImages :: "jsFile list \<Rightarrow> string list" where
  "acceptedImages fs =
     List.map_filter
       (\<lambda>f. if startsWith (file_type f) ''image/''
            then (case readFile f of Inl e \<Rightarrow> None | Inr dataUrl \<Rightarrow> Some dataUrl)
            else None) fs"

text \<open>One console entry for every file of image type whose read fails, in the order of the files.\<close>

definition diagnostics :: "jsFile list \<Rightarrow> console list" where
  "diagnostics fs =
     map (\<lambda>f. Error ''Failed to read file'' (file_name f))
       (filter (\<lambda>f. startsWith (file_type f) ''image/'' \<and> file_base64 f = None) fs)"

subsection \<open>Files for concrete runs\<close>

definition unreadablePng :: jsFile where
  "unreadablePng = \<lparr>file_name = ''a.png'', file_type = ''image/png'', file_base64 = None\<rparr>"

definition gifFile :: jsFile where
  "gifFile = \<lparr>file_name = ''c.gif'', file_type = ''image/gif'', file_base64 = Some ''R0lGODlh''\<rparr>"

definition pngFile :: jsFile where
  "pngFile = \<lparr>file_name = ''p.png'', file_type = ''image/png'', file_base64 = Some ''iVBORw0K''\<rparr>"

definition textFile :: jsFile where
  "textFile = \<lparr>file_name = ''n.txt'', file_type = ''text/plain'', file_base64 = Some ''aGk=''\<rparr>"

section \<open>The drawing canvas (src/components/DrawingCanvas.tsx)\<close>

text \<open>
  Coordinates are JavaScript numbers, that is IEEE 754 doubles. A finite double is a
  rational number; the one value \<open>NonFinite\<close> stands for the infinities and NaN (a
  division by zero gives one of them, and so does every operation on one of them). The
  sign of a zero is not kept.

  Every arithmetic operation returns the exact result rounded to the nearest double, ties
  to even: a result of binary exponent \<open>e\<close> is rounded to a multiple of
  \<open>2 powi (e - 52)\<close>, in the subnormal range to a multiple of \<open>2 powi (- 1074)\<close>, and a
  rounded magnitude of \<open>2 powi 1024\<close> or more overflows to an infinity.
\<close>

datatype jsnum = Num rat | NonFinite

text \<open>The binary exponent of a number that is not zero: \<open>2 powi e \<le> \<bar>x\<bar> < 2 powi (e + 1)\<close>.\<close>

definition exponent :: "rat \<Rightarrow> int" where
  "exponent x =
     (let (p, q) = quotient_of \<bar>x\<bar>; k = bitlen p - bitlen q
      in if 2 powi k \<le> \<bar>x\<bar> then k else k - 1)"

definition roundTiesToEven :: "rat \<Rightarrow> int" where
  "roundTiesToEven y =
     (let m = \<lfloor>y\<rfloor>; d = y - of_int m
      in if d < 1 / 2 then m
         else if 1 / 2 < d then m + 1
         else if even m then m else m + 1)"

definition toDouble :: "rat \<Rightarrow> jsnum" where
  "toDouble x =
     (if x = 0 then Num 0
      else
        (let q = 2 powi (max (exponent x) (- 1022) - 52);
             r = of_int (roundTiesToEven (x / q)) * q
         in if 2 powi 1024 \<le> \<bar>r\<bar> then NonFinite else Num r))"


text \<open>The operators \<^verbatim>\<open>/\<close>, \<^verbatim>\<open>*\<close> and \<^verbatim>\<open>-\<close> on numbers.\<close>

definition jsdiv :: "rat \<Rightarrow> rat \<Rightarrow> jsnum" where
  "jsdiv a b = (if b = 0 then NonFinite else toDouble (a / b))"

definition jsmul :: "jsnum \<Rightarrow> jsnum \<Rightarrow> jsnum" where
  "jsmul a b =
     (case a of
        NonFinite \<Rightarrow> NonFinite
      | Num x \<Rightarrow> (case b of NonFinite \<Rightarrow> NonFinite | Num y \<Rightarrow> toDouble (x * y)))"

definition jssub :: "rat \<Rightarrow> rat \<Rightarrow> jsnum" where
  "jssub a b = toDouble (a - b)"

text \<open>What the component does to the canvas element and its 2D context, in order.\<close>

datatype canvasOp =
    SetWidth rat
  | SetHeight rat
  | SetLineCap string
  | SetLineJoin string
  | SetStrokeStyle string
  | SetLineWidth rat
  | SetFillStyle string
  | FillRect rat rat rat rat
  | BeginPath
  | MoveTo jsnum jsnum
  | LineTo jsnum jsnum
  | Stroke
  | ClosePath

text \<open>
  The state of the component: whether \<^verbatim>\<open>canvasRef.current\<close> and \<^verbatim>\<open>ctxRef.current\<close>
  are set, the two state variables, and the operations performed so far.
\<close>

record canvas =
  canvasRef :: bool
  ctxRef :: bool
  isDrawing :: bool
  hasContent :: bool
  performed :: "canvasOp list"

definition mounted :: "bool \<Rightarrow> canvas" where
  "mounted hasElement =
     \<lparr>canvasRef = hasElement, ctxRef = False, isDrawing = False, hasContent = False,
      performed = []\<rparr>"

text \<open>
  The effect commented ``Initialize Canvas'', which runs after mounting and again whenever
  \<open>width\<close> or \<open>height\<close> changes; \<open>getContext\<close> says whether the element hands out a
  2D context.
\<close>

definition initialize :: "rat \<Rightarrow> rat \<Rightarrow> bool \<Rightarrow> canvas \<Rightarrow> canvas" where
  "initialize width height getContext s =
     (if canvasRef s then
        (let s1 = s\<lparr>performed := performed s @ [SetWidth width, SetHeight height]\<rparr>
         in if getContext then
              s1\<lparr>ctxRef := True,
                 performed := performed s1 @
                   [SetLineCap ''round'', SetLineJoin ''round'', SetStrokeStyle ''white'',
                    SetLineWidth 8, SetFillStyle ''#000000'', FillRect 0 0 width height]\<rparr>
            else s1)
      else s)"

definition clearCanvas :: "rat \<Rightarrow> rat \<Rightarrow> canvas \<Rightarrow> canvas" where
  "clearCanvas width height s =
     (if canvasRef s \<and> ctxRef s then
        s\<lparr>performed := performed s @ [SetFillStyle ''#000000'', FillRect 0 0 width height],
          hasContent := False\<rparr>
      else s)"

definition isEmpty :: "canvas \<Rightarrow> bool" where
  "isEmpty s = (\<not> hasContent s)"

definition startDrawing :: "jsnum \<Rightarrow> jsnum \<Rightarrow> canvas \<Rightarrow> canvas" where
  "startDrawing x y s =
     (if \<not> ctxRef s then s
      else s\<lparr>performed := performed s @ [BeginPath, MoveTo x y],
             isDrawing := True, hasContent := True\<rparr>)"

definition draw :: "jsnum \<Rightarrow> jsnum \<Rightarrow> canvas \<Rightarrow> canvas" where
  "draw x y s =
     (if \<not> isDrawing s \<or> \<not> ctxRef s then s
      else s\<lparr>performed := performed s @ [LineTo x y, Stroke]\<rparr>)"

definition stopDrawing :: "canvas \<Rightarrow> canvas" where
  "stopDrawing s =
     (if \<not> ctxRef s then s
      else s\<lparr>performed := performed s @ [ClosePath], isDrawing := False\<rparr>)"

text \<open>
  The bounding rectangle of the displayed canvas, as \<^verbatim>\<open>getBoundingClientRect\<close> reports
  it; it is available when \<^verbatim>\<open>canvasRef.current\<close> is set.
\<close>

record rect =
  rect_left :: rat
  rect_top :: rat
  rect_width :: rat
  rect_height :: rat

record mouseEvent =
  offsetX :: rat
  offsetY :: rat

record touch =
  clientX :: rat
  clientY :: rat

record touchEvent =
  touches :: "touch list"

definition handleMouseDown ::
    "rat \<Rightarrow> rat \<Rightarrow> rect \<Rightarrow> mouseEvent \<Rightarrow> canvas \<Rightarrow> canvas" where
  "handleMouseDown width height rect e s =
     (if canvasRef s then
        (let scaleX = jsdiv width (rect_width rect);
             scaleY = jsdiv height (rect_height rect)
         in startDrawing (jsmul (Num (offsetX e)) scaleX) (jsmul (Num (offsetY e)) scaleY) s)
      else s)"

definition handleMouseMove ::
    "rat \<Rightarrow> rat \<Rightarrow> rect \<Rightarrow> mouseEvent \<Rightarrow> canvas \<Rightarrow> canvas" where
  "handleMouseMove width height rect e s =
     (if canvasRef s then
        (let scaleX = jsdiv width (rect_width rect);
             scaleY = jsdiv height (rect_height rect)
         in draw (jsmul (Num (offsetX e)) scaleX) (jsmul (Num (offsetY e)) scaleY) s)
      else s)"

text \<open>
  The touch handlers follow the first touch of the event. An event without touches makes
  the read of its coordinates throw, which leaves the state as it is.
\<close>

definition handleTouchStart ::
    "rat \<Rightarrow> rat \<Rightarrow> rect \<Rightarrow> touchEvent \<Rightarrow> canvas \<Rightarrow> canvas" where
  "handleTouchStart width height rect e s =
     (if canvasRef s then
        (case touches e of
           [] \<Rightarrow> s
         | t # ts \<Rightarrow>
             (let x = jsmul (jssub (clientX t) (rect_left rect)) (jsdiv width (rect_width rect));
                  y = jsmul (jssub (clientY t) (rect_top rect)) (jsdiv height (rect_height rect))
              in startDrawing x y s))
      else s)"

definition handleTouchMove ::
    "rat \<Rightarrow> rat \<Rightarrow> rect \<Rightarrow> touchEvent \<Rightarrow> canvas \<Rightarrow> canvas" where
  "handleTouchMove width height rect e s =
     (if canvasRef s then
        (case touches e of
           [] \<Rightarrow> s
         | t # ts \<Rightarrow>
             (let x = jsmul (jssub (clientX t) (rect_left rect)) (jsdiv width (rect_width rect));
                  y = jsmul (jssub (clientY t) (rect_top rect)) (jsdiv height (rect_height rect))
              in draw x y s))
      else s)"

subsection \<open>Notions used to state the properties of the rescaling\<close>

text \<open>
  A quantity that is zero or of a magnitude between \<open>2 powi (- 1000)\<close> and
  \<open>2 powi 1000\<close>: far from the overflow and underflow thresholds of a double.
\<close>

definition inRange :: "rat \<Rightarrow> bool" where
  "inRange t = (t = 0 \<or> (2 powi (- 1000) \<le> \<bar>t\<bar> \<and> \<bar>t\<bar> \<le> 2 powi 1000))"

text \<open>
  A finite number within the relative error \<open>2 powi (- 52) + 2 powi (- 106)\<close> of an exact
  quantity: what two roundings to nearest, one after the other, can lose.
\<close>

definition closeTo :: "jsnum \<Rightarrow> rat \<Rightarrow> bool" where
  "closeTo v t =
     (case v of
        NonFinite \<Rightarrow> False
      | Num r \<Rightarrow> \<bar>r - t\<bar> \<le> (1 / 2 ^ 52 + 1 / 2 ^ 106) * \<bar>t\<bar>)"

text \<open>A canvas displayed 98 wide and 196 high, at the offset (10, 20) in the viewport.\<close>

definition displayed98by196 :: rect where
  "displayed98by196 = \<lparr>rect_left = 10, rect_top = 20, rect_width = 98, rect_height = 196\<rparr>"

section \<open>Properties of the generation service\<close>

lemma length_settle: "length (settle ps i slots) = length slots"
  by (simp add: settle_def)

lemma length_fold_settle:
  "length (fold (settle ps) sch slots) = length slots"
  by (induction sch arbitrary: slots) (simp_all add: length_settle)

lemma nth_settle:
  "j < length slots \<Longrightarrow>
   settle ps i slots ! j = (if i = j then Some (ps ! j) else slots ! j)"
  by (simp add: settle_def nth_list_update)

lemma nth_fold_settle:
  "j < length slots \<Longrightarrow>
   fold (settle ps) sch slots ! j = (if j \<in> set sch then Some (ps ! j) else slots ! j)"
proof (induction sch arbitrary: slots)
  case Nil
  then show ?case by simp
next
  case (Cons i sch)
  have "j < length (settle ps i slots)"
    using Cons.prems by (simp add: length_settle)
  from Cons.IH [OF this] show ?case
    using Cons.prems by (auto simp: nth_settle)
qed

lemma promiseAll_all_settled:
  assumes "{0 ..< length ps} \<subseteq> set schedule"
  shows "promiseAll schedule ps = Some ps"
proof -
  let ?slots = "fold (settle ps) schedule (replicate (length ps) None)"
  have len: "length ?slots = length ps"
    by (simp add: length_fold_settle)
  have nth: "?slots ! j = Some (ps ! j)" if "j < length ps" for j
    using that assms nth_fold_settle [of j "replicate (length ps) None" ps schedule]
    by auto
  have eq: "?slots = map Some ps"
    by (rule nth_equalityI) (simp_all add: len nth)
  show ?thesis
    unfolding promiseAll_def Let_def eq
    by (simp add: list_all_iff comp_def)
qed

lemma isSchedule_covers:
  assumes "isSchedule schedule"
  shows "{0 ..< numberOfVariations} \<subseteq> set schedule"
proof -
  from assms have "set (sort schedule) = set [0 ..< numberOfVariations]"
    by (simp add: isSchedule_def)
  then show ?thesis by simp
qed

lemma valid_images_map_filter:
  "map the (filter (\<lambda>img. img \<noteq> None) (map f xs)) = List.map_filter f xs"
  by (induction xs) (auto simp: List.map_filter_simps split: option.splits)

lemma single_issued:
  "issued (generateSingleImage rem (promptText (length cs) ap)
      (map (\<lambda>img. InlineData \<lparr>mimeType = ''image/png'', data = stripDataUrl img\<rparr>) cs)
      (stripDataUrl pose) i) = payload cs pose ap"
  by (simp add: generateSingleImage_def payload_def Let_def
      split: remoteResult.splits sum.splits)

lemma single_image:
  "image (generateSingleImage rem (promptText (length cs) ap)
      (map (\<lambda>img. InlineData \<lparr>mimeType = ''image/png'', data = stripDataUrl img\<rparr>) cs)
      (stripDataUrl pose) i) = imageOf rem (payload cs pose ap) i"
  by (simp add: generateSingleImage_def payload_def imageOf_def Let_def
      split: remoteResult.splits sum.splits)

lemma calls_generateMangaPanel:
  "calls (generateMangaPanel rem schedule cs pose ap) =
     replicate numberOfVariations (payload cs pose ap)"
proof -
  have "map issued (map (generateSingleImage rem (promptText (length cs) ap)
      (map (\<lambda>img. InlineData \<lparr>mimeType = ''image/png'', data = stripDataUrl img\<rparr>) cs)
      (stripDataUrl pose)) [0 ..< numberOfVariations])
    = replicate numberOfVariations (payload cs pose ap)"
    by (simp add: comp_def single_issued map_replicate_const)
  then show ?thesis
    by (simp add: generateMangaPanel_def Let_def split: option.splits)
qed

lemma outcome_generateMangaPanel:
  assumes "isSchedule schedule"
  shows "outcome (generateMangaPanel rem schedule cs pose ap) =
     (let imgs = imagesAlong rem (payload cs pose ap) [0 ..< numberOfVariations]
      in if imgs = [] then Some (Inl ''Failed to generate any images.'')
         else Some (Inr imgs))"
proof -
  let ?ps = "map (generateSingleImage rem (promptText (length cs) ap)
      (map (\<lambda>img. InlineData \<lparr>mimeType = ''image/png'', data = stripDataUrl img\<rparr>) cs)
      (stripDataUrl pose)) [0 ..< numberOfVariations]"
  let ?imgs = "map (imageOf rem (payload cs pose ap)) [0 ..< numberOfVariations]"
  have A: "map image ?ps = ?imgs"
    by (simp add: comp_def single_image)
  have B: "promiseAll schedule ?imgs = Some ?imgs"
    by (rule promiseAll_all_settled) (use isSchedule_covers [OF assms] in simp)
  show ?thesis
    unfolding generateMangaPanel_def Let_def A B option.case valid_images_map_filter imagesAlong_def
    by simp
qed


lemma length_map_filter:
  "length (List.map_filter f xs) = length (filter (\<lambda>x. f x \<noteq> None) xs)"
  by (induction xs) (auto simp: List.map_filter_simps split: option.splits)

lemma card_successes:
  "card {i. i < n \<and> P i} = length (filter P [0 ..< n])"
proof -
  have "set (filter P [0 ..< n]) = {i. i < n \<and> P i}"
    by auto
  moreover have "distinct (filter P [0 ..< n])"
    by simp
  ultimately show ?thesis
    by (metis distinct_card)
qed

lemma firstInlineImage_payloads:
  "firstInlineImage ps =
     (case filter (\<lambda>d. d \<noteq> []) (inlinePayloads ps) of
        d # ds \<Rightarrow> Some (''data:image/png;base64,'' @ d)
      | [] \<Rightarrow> None)"
proof (induction ps)
  case Nil
  show ?case by (simp add: inlinePayloads_def)
next
  case (Cons p ps)
  have tl: "inlinePayloads (p # ps) =
      (case r_inlineData p of
         None \<Rightarrow> []
       | Some b \<Rightarrow> (case r_data b of None \<Rightarrow> [] | Some d \<Rightarrow> [d])) @ inlinePayloads ps"
    by (simp add: inlinePayloads_def)
  show ?case
    unfolding tl using Cons.IH
    by (simp split: option.splits)
qed

lemma imageOf_returnedImage: "imageOf rem req i = returnedImage (rem i req)"
  by (simp add: imageOf_def returnedImage_def readResponse_def firstInlineImage_payloads
      split: remoteResult.splits option.splits list.splits)

text \<open>
  Claim C1. Every run issues exactly ten remote calls, each with the one payload built
  from its arguments. When every call settles and exactly \<open>k\<close> of the ten calls return
  an image, with \<open>1 \<le> k\<close>, while the others are rejected or return no image, the run
  fulfils with exactly \<open>k\<close> entries: the images returned by the successful calls and
  nothing else, so no failure of a single call reaches the caller.
\<close>

theorem fan_out_partial_success:
  "calls (generateMangaPanel rem schedule cs pose ap) =
     replicate 10 (payload cs pose ap) \<and>
   (isSchedule schedule \<longrightarrow>
    card {i. i < 10 \<and> returnedImage (rem i (payload cs pose ap)) \<noteq> None} = k \<longrightarrow>
    1 \<le> k \<longrightarrow>
    (\<exists>imgs. outcome (generateMangaPanel rem schedule cs pose ap) = Some (Inr imgs) \<and>
            length imgs = k \<and>
            imgs = List.map_filter (\<lambda>i. returnedImage (rem i (payload cs pose ap))) [0 ..< 10]))"
proof (intro conjI impI)
  show "calls (generateMangaPanel rem schedule cs pose ap) = replicate 10 (payload cs pose ap)"
    using calls_generateMangaPanel [of rem schedule cs pose ap]
    by (simp add: numberOfVariations_def)
next
  let ?imgs = "List.map_filter (\<lambda>i. returnedImage (rem i (payload cs pose ap))) [0 ..< 10]"
  assume sch: "isSchedule schedule"
    and k: "card {i. i < 10 \<and> returnedImage (rem i (payload cs pose ap)) \<noteq> None} = k"
    and pos: "1 \<le> k"
  have same: "imagesAlong rem (payload cs pose ap) [0 ..< 10] = ?imgs"
    by (simp add: imagesAlong_def imageOf_returnedImage [abs_def])
  have len: "length ?imgs = k"
    using k by (simp add: length_map_filter card_successes)
  with pos have ne: "?imgs \<noteq> []"
    by auto
  have "outcome (generateMangaPanel rem schedule cs pose ap) = Some (Inr ?imgs)"
    using outcome_generateMangaPanel [OF sch, of rem cs pose ap] ne
    by (simp add: numberOfVariations_def Let_def same)
  with len show "\<exists>imgs. outcome (generateMangaPanel rem schedule cs pose ap) = Some (Inr imgs) \<and>
            length imgs = k \<and> imgs = ?imgs"
    by simp
qed

lemma isSchedule_reversed: "isSchedule [9, 8, 7, 6, 5, 4, 3, 2, 1, 0]"
  unfolding isSchedule_def numberOfVariations_def by code_simp

lemma fourOfTen_returned:
  "map (\<lambda>i. returnedImage (fourOfTen i req)) [0 ..< 10] =
     [Some ''data:image/png;base64,A'', None, None, Some ''data:image/png;base64,B'', None,
      None, Some ''data:image/png;base64,C'', None, None, Some ''data:image/png;base64,D'']"
  by (simp add: upt_rec fourOfTen_def stubRemote_def imageResponse_def returnedImage_def
      inlinePayloads_def)

lemma fourOfTen_read:
  "imagesAlong fourOfTen req [0 ..< 10] =
     [''data:image/png;base64,A'', ''data:image/png;base64,B'',
      ''data:image/png;base64,C'', ''data:image/png;base64,D'']"
  by (simp add: imagesAlong_def upt_rec List.map_filter_simps imageOf_def fourOfTen_def
      stubRemote_def imageResponse_def readResponse_def)

theorem fan_out_partial_success_witness:
  "isSchedule [9, 8, 7, 6, 5, 4, 3, 2, 1, 0] \<and>
   card {i. i < 10 \<and> returnedImage (fourOfTen i (payload [''c''] ''p'' [])) \<noteq> None} = 4 \<and>
   (1::nat) \<le> 4 \<and>
   calls (generateMangaPanel fourOfTen [9, 8, 7, 6, 5, 4, 3, 2, 1, 0] [''c''] ''p'' []) =
     replicate 10 (payload [''c''] ''p'' []) \<and>
   outcome (generateMangaPanel fourOfTen [9, 8, 7, 6, 5, 4, 3, 2, 1, 0] [''c''] ''p'' []) =
     Some (Inr [''data:image/png;base64,A'', ''data:image/png;base64,B'',
       ''data:image/png;base64,C'', ''data:image/png;base64,D'']) \<and>
   imagesAlong fourOfTen (payload [''c''] ''p'' []) [0 ..< 10] =
     [''data:image/png;base64,A'', ''data:image/png;base64,B'',
      ''data:image/png;base64,C'', ''data:image/png;base64,D'']"
proof -
  let ?f = "\<lambda>i. returnedImage (fourOfTen i (payload [''c''] ''p'' []))"
  have m: "map ?f [0 ..< 10] =
     [Some ''data:image/png;base64,A'', None, None, Some ''data:image/png;base64,B'', None,
      None, Some ''data:image/png;base64,C'', None, None, Some ''data:image/png;base64,D'']"
    by (rule fourOfTen_returned)
  have "length (filter (\<lambda>v. v \<noteq> None) (map ?f [0 ..< 10])) = 4"
    unfolding m by simp
  then have "length (filter (\<lambda>i. ?f i \<noteq> None) [0 ..< 10]) = 4"
    by (simp only: filter_map comp_def length_map)
  then have k: "card {i. i < 10 \<and> ?f i \<noteq> None} = 4"
    by (simp only: card_successes)
  have "List.map_filter ?f [0 ..< 10] = map the (filter (\<lambda>v. v \<noteq> None) (map ?f [0 ..< 10]))"
    by (simp only: valid_images_map_filter)
  then have e: "List.map_filter ?f [0 ..< 10] =
     [''data:image/png;base64,A'', ''data:image/png;base64,B'',
      ''data:image/png;base64,C'', ''data:image/png;base64,D'']"
    unfolding m by simp
  show ?thesis
    using fan_out_partial_success
      [of fourOfTen "[9, 8, 7, 6, 5, 4, 3, 2, 1, 0]" "[''c'']" "''p''" "[]" 4]
      isSchedule_reversed k
    unfolding e fourOfTen_read by auto
qed

text \<open>
  Claim C2. When every call settles and none of the ten yields an image, the run rejects
  with the one error ``Failed to generate any images.'', so no sequence of images is
  produced; and no run, whatever the remote capability does, fulfils with an empty
  sequence.
\<close>

theorem total_failure_raises:
  "(isSchedule schedule \<longrightarrow>
    (\<forall>i < 10. imageOf rem (payload cs pose ap) i = None) \<longrightarrow>
    outcome (generateMangaPanel rem schedule cs pose ap) =
      Some (Inl ''Failed to generate any images.'')) \<and>
   outcome (generateMangaPanel rem schedule cs pose ap) \<noteq> Some (Inr [])"
proof (intro conjI impI)
  assume sch: "isSchedule schedule"
    and none: "\<forall>i < 10. imageOf rem (payload cs pose ap) i = None"
  have "filter (\<lambda>i. imageOf rem (payload cs pose ap) i \<noteq> None) [0 ..< 10] = []"
    using none by (simp add: filter_empty_conv)
  then have "length (imagesAlong rem (payload cs pose ap) [0 ..< 10]) = 0"
    by (simp add: imagesAlong_def length_map_filter)
  then show "outcome (generateMangaPanel rem schedule cs pose ap) =
      Some (Inl ''Failed to generate any images.'')"
    using outcome_generateMangaPanel [OF sch, of rem cs pose ap]
    by (simp add: numberOfVariations_def Let_def)
next
  show "outcome (generateMangaPanel rem schedule cs pose ap) \<noteq> Some (Inr [])"
    unfolding generateMangaPanel_def Let_def
    by (simp split: option.splits)
qed

theorem total_failure_raises_witness:
  "isSchedule [9, 8, 7, 6, 5, 4, 3, 2, 1, 0] \<and>
   imageOf alwaysFails (payload [''c''] ''p'' []) 0 = None \<and>
   imageOf alwaysFails (payload [''c''] ''p'' []) 9 = None \<and>
   outcome (generateMangaPanel alwaysFails [9, 8, 7, 6, 5, 4, 3, 2, 1, 0] [''c''] ''p'' []) =
     Some (Inl ''Failed to generate any images.'')"
  using total_failure_raises
      [of "[9, 8, 7, 6, 5, 4, 3, 2, 1, 0]" alwaysFails "[''c'']" "''p''" "[]"]
    isSchedule_reversed
  by (simp add: imageOf_def alwaysFails_def)

lemma sevenOfTen_dispatch_order:
  "imagesAlong sevenOfTen req [0 ..< numberOfVariations] =
     [''data:image/png;base64,A'', ''data:image/png;base64,B'', ''data:image/png;base64,C'',
      ''data:image/png;base64,D'', ''data:image/png;base64,E'', ''data:image/png;base64,F'',
      ''data:image/png;base64,G'']"
  by (simp add: imagesAlong_def numberOfVariations_def upt_rec List.map_filter_simps
      imageOf_def sevenOfTen_def stubRemote_def imageResponse_def readResponse_def)

lemma sevenOfTen_reversed_outcome:
  "outcome (generateMangaPanel sevenOfTen [9, 8, 7, 6, 5, 4, 3, 2, 1, 0] [''c''] ''p'' []) =
     Some (Inr [''data:image/png;base64,A'', ''data:image/png;base64,B'',
       ''data:image/png;base64,C'', ''data:image/png;base64,D'', ''data:image/png;base64,E'',
       ''data:image/png;base64,F'', ''data:image/png;base64,G''])"
  using outcome_generateMangaPanel [OF isSchedule_reversed, of sevenOfTen "[''c'']" "''p''" "[]"]
  by (simp add: sevenOfTen_dispatch_order Let_def)

text \<open>
  Claim C4, as stated, fails. The stub answers the calls at positions 0 to 6 with the
  images A to G, and the calls settle in the reverse of their dispatch order. In settlement
  order the images are G, \<open>\<dots>\<close>, A; the run returns A, \<open>\<dots>\<close>, G.
\<close>

theorem settlement_order_counterexample:
  "isSchedule [9, 8, 7, 6, 5, 4, 3, 2, 1, 0] \<and>
   outcome (generateMangaPanel sevenOfTen [9, 8, 7, 6, 5, 4, 3, 2, 1, 0] [''c''] ''p'' []) \<noteq>
     Some (Inr (imagesAlong sevenOfTen (payload [''c''] ''p'' []) [9, 8, 7, 6, 5, 4, 3, 2, 1, 0]))"
proof -
  have b: "imagesAlong sevenOfTen req [9, 8, 7, 6, 5, 4, 3, 2, 1, 0] =
      [''data:image/png;base64,G'', ''data:image/png;base64,F'', ''data:image/png;base64,E'',
       ''data:image/png;base64,D'', ''data:image/png;base64,C'', ''data:image/png;base64,B'',
       ''data:image/png;base64,A'']" for req
    by (simp add: imagesAlong_def List.map_filter_simps
        imageOf_def sevenOfTen_def stubRemote_def imageResponse_def readResponse_def)
  show ?thesis
    unfolding sevenOfTen_reversed_outcome b using isSchedule_reversed by simp
qed

text \<open>
  Claim C4, amended. Whatever the order in which the ten calls settle, a run that
  fulfils returns the images of the successful calls in the order in which the calls were
  dispatched.
\<close>

theorem outcome_in_dispatch_order:
  "isSchedule schedule \<Longrightarrow>
   outcome (generateMangaPanel rem schedule cs pose ap) = Some (Inr imgs) \<Longrightarrow>
   imgs = imagesAlong rem (payload cs pose ap) [0 ..< 10]"
  using outcome_generateMangaPanel [of schedule rem cs pose ap]
  by (simp add: Let_def numberOfVariations_def split: if_splits)

theorem outcome_in_dispatch_order_witness:
  "isSchedule [9, 8, 7, 6, 5, 4, 3, 2, 1, 0] \<and>
   outcome (generateMangaPanel sevenOfTen [9, 8, 7, 6, 5, 4, 3, 2, 1, 0] [''c''] ''p'' []) =
     Some (Inr [''data:image/png;base64,A'', ''data:image/png;base64,B'',
       ''data:image/png;base64,C'', ''data:image/png;base64,D'', ''data:image/png;base64,E'',
       ''data:image/png;base64,F'', ''data:image/png;base64,G'']) \<and>
   [''data:image/png;base64,A'', ''data:image/png;base64,B'',
       ''data:image/png;base64,C'', ''data:image/png;base64,D'', ''data:image/png;base64,E'',
       ''data:image/png;base64,F'', ''data:image/png;base64,G''] =
     imagesAlong sevenOfTen (payload [''c''] ''p'' []) [0 ..< 10]"
  using outcome_in_dispatch_order [OF isSchedule_reversed sevenOfTen_reversed_outcome]
    isSchedule_reversed sevenOfTen_reversed_outcome
  by simp

section \<open>Properties of the application\<close>

lemma remoteCalls_dispatched:
  assumes "characterImages s \<noteq> []" "poseImage s = Some p" "p \<noteq> []"
  shows "remoteCalls (handleGenerate rem schedule s) =
     replicate 10 (payload (characterImages s) p (customPrompt s))"
  using assms calls_generateMangaPanel [of rem schedule "characterImages s" p "customPrompt s"]
  by (simp add: handleGenerate_def Let_def numberOfVariations_def)

lemma handlePoseFile_nonempty:
  "poseImage (fst (handlePoseFile file s)) = Some p \<Longrightarrow> poseImage s \<noteq> Some p \<Longrightarrow> p \<noteq> []"
  by (auto simp: handlePoseFile_def readFile_def split: option.splits if_splits)

text \<open>
  Claim C3. When there is no character image or no pose reference, the attempt makes no
  remote call, dispatches nothing, and only stores the validation message in the error
  slot. When there is at least one character image and a pose reference is set (a
  non-empty data URL, as every pose reference stored by the upload handler is), the
  request is built and dispatched: the ten remote calls carry the payload made from the
  character images, the pose reference and the custom prompt.
\<close>

theorem validation_before_dispatch:
  "(characterImages s = [] \<or> poseImage s = None \<longrightarrow>
      remoteCalls (handleGenerate rem schedule s) = [] \<and>
      atDispatch (handleGenerate rem schedule s) = None \<and>
      afterwards (handleGenerate rem schedule s) =
        s\<lparr>error := Some (if characterImages s = []
                          then ''Please upload at least one character sheet.''
                          else ''Please upload a pose/composition reference.'')\<rparr>) \<and>
   (characterImages s \<noteq> [] \<longrightarrow> poseImage s = Some p \<longrightarrow> p \<noteq> [] \<longrightarrow>
      remoteCalls (handleGenerate rem schedule s) =
        replicate 10 (payload (characterImages s) p (customPrompt s)))"
proof (intro conjI impI)
  assume "characterImages s = [] \<or> poseImage s = None"
  then show "remoteCalls (handleGenerate rem schedule s) = []"
    and "atDispatch (handleGenerate rem schedule s) = None"
    and "afterwards (handleGenerate rem schedule s) =
        s\<lparr>error := Some (if characterImages s = []
                          then ''Please upload at least one character sheet.''
                          else ''Please upload a pose/composition reference.'')\<rparr>"
    by (auto simp: handleGenerate_def)
next
  assume "characterImages s \<noteq> []" "poseImage s = Some p" "p \<noteq> []"
  then show "remoteCalls (handleGenerate rem schedule s) =
        replicate 10 (payload (characterImages s) p (customPrompt s))"
    by (rule remoteCalls_dispatched)
qed

theorem validation_before_dispatch_witness:
  "(characterImages initialApp = [] \<or> poseImage initialApp = None) \<and>
   remoteCalls (handleGenerate sevenOfTen [0, 1, 2, 3, 4, 5, 6, 7, 8, 9] initialApp) = [] \<and>
   error (afterwards (handleGenerate sevenOfTen [0, 1, 2, 3, 4, 5, 6, 7, 8, 9] initialApp)) =
     Some ''Please upload at least one character sheet.'' \<and>
   characterImages (initialApp\<lparr>characterImages := [''c''], poseImage := Some ''p''\<rparr>) \<noteq> [] \<and>
   poseImage (initialApp\<lparr>characterImages := [''c''], poseImage := Some ''p''\<rparr>) = Some ''p'' \<and>
   ''p'' \<noteq> [] \<and>
   remoteCalls (handleGenerate sevenOfTen [0, 1, 2, 3, 4, 5, 6, 7, 8, 9]
       (initialApp\<lparr>characterImages := [''c''], poseImage := Some ''p''\<rparr>)) =
     replicate 10 (payload [''c''] ''p'' [])"
  using validation_before_dispatch
      [where s = initialApp and rem = sevenOfTen
         and schedule = "[0, 1, 2, 3, 4, 5, 6, 7, 8, 9]" and p = "''p''"]
    validation_before_dispatch
      [where s = "initialApp\<lparr>characterImages := [''c''], poseImage := Some ''p''\<rparr>"
         and rem = sevenOfTen and schedule = "[0, 1, 2, 3, 4, 5, 6, 7, 8, 9]" and p = "''p''"]
  by (simp add: initialApp_def)

text \<open>
  Claim C10. An attempt that passes the checks dispatches the batch from a state whose
  displayed images are empty and whose error slot is clear. If the batch then fails, the
  earlier images are not restored: afterwards the displayed images are empty and the error
  slot holds the message of this failure.
\<close>

theorem generate_resets_display:
  "characterImages s \<noteq> [] \<Longrightarrow> poseImage s = Some p \<Longrightarrow> p \<noteq> [] \<Longrightarrow>
   atDispatch (handleGenerate rem schedule s) =
     Some (s\<lparr>isGenerating := True, error := None, generatedImages := []\<rparr>) \<and>
   (outcome (generateMangaPanel rem schedule (characterImages s) p (customPrompt s)) =
      Some (Inl message) \<longrightarrow>
    generatedImages (afterwards (handleGenerate rem schedule s)) = [] \<and>
    error (afterwards (handleGenerate rem schedule s)) = Some message \<and>
    message = ''Failed to generate any images.'')"
proof (intro conjI impI)
  assume pre: "characterImages s \<noteq> []" "poseImage s = Some p" "p \<noteq> []"
  then show "atDispatch (handleGenerate rem schedule s) =
     Some (s\<lparr>isGenerating := True, error := None, generatedImages := []\<rparr>)"
    by (simp add: handleGenerate_def Let_def)
  assume fails: "outcome (generateMangaPanel rem schedule (characterImages s) p (customPrompt s)) =
      Some (Inl message)"
  then show msg: "message = ''Failed to generate any images.''"
    unfolding generateMangaPanel_def Let_def
    by (simp split: option.splits if_splits)
  from pre fails msg show "generatedImages (afterwards (handleGenerate rem schedule s)) = []"
    by (simp add: handleGenerate_def Let_def)
  from pre fails msg show "error (afterwards (handleGenerate rem schedule s)) = Some message"
    by (simp add: handleGenerate_def Let_def)
qed


lemma imagesAlong_alwaysFails: "imagesAlong alwaysFails req positions = []"
  by (simp add: imagesAlong_def List.map_filter_def imageOf_def alwaysFails_def)

theorem generate_resets_display_witness:
  "characterImages staleApp \<noteq> [] \<and> poseImage staleApp = Some ''p'' \<and> ''p'' \<noteq> [] \<and>
   generatedImages staleApp = [''old''] \<and> error staleApp = Some ''old error'' \<and>
   outcome (generateMangaPanel alwaysFails [9, 8, 7, 6, 5, 4, 3, 2, 1, 0]
      (characterImages staleApp) ''p'' (customPrompt staleApp)) =
     Some (Inl ''Failed to generate any images.'') \<and>
   generatedImages (afterwards (handleGenerate alwaysFails [9, 8, 7, 6, 5, 4, 3, 2, 1, 0] staleApp)) = [] \<and>
   error (afterwards (handleGenerate alwaysFails [9, 8, 7, 6, 5, 4, 3, 2, 1, 0] staleApp)) =
     Some ''Failed to generate any images.''"
proof -
  have pre: "characterImages staleApp \<noteq> []" "poseImage staleApp = Some ''p''" "''p'' \<noteq> []"
    by (simp_all add: staleApp_def)
  have fails: "outcome (generateMangaPanel alwaysFails [9, 8, 7, 6, 5, 4, 3, 2, 1, 0]
      (characterImages staleApp) ''p'' (customPrompt staleApp)) =
     Some (Inl ''Failed to generate any images.'')"
    using outcome_generateMangaPanel [OF isSchedule_reversed, of alwaysFails]
    by (simp add: imagesAlong_alwaysFails)
  have old: "generatedImages staleApp = [''old'']" "error staleApp = Some ''old error''"
    by (simp_all add: staleApp_def)
  show ?thesis
    using generate_resets_display [OF pre, where rem = alwaysFails
        and schedule = "[9, 8, 7, 6, 5, 4, 3, 2, 1, 0]"
        and message = "''Failed to generate any images.''"] pre fails old
    by simp
qed

lemma readCharacterFiles_acc:
  "readCharacterFiles fs newImages out =
     (newImages @ acceptedImages fs, out @ diagnostics fs)"
proof (induction fs arbitrary: newImages out)
  case Nil
  show ?case
    by (simp add: acceptedImages_def diagnostics_def List.map_filter_simps)
next
  case (Cons f fs)
  show ?case
  proof (cases "startsWith (file_type f) ''image/''")
    case False
    then show ?thesis
      using Cons.IH [of newImages out]
      by (simp add: acceptedImages_def diagnostics_def List.map_filter_simps)
  next
    case True
    show ?thesis
    proof (cases "file_base64 f")
      case None
      then show ?thesis
        using True Cons.IH [of newImages "out @ [Error ''Failed to read file'' (file_name f)]"]
        by (simp add: acceptedImages_def diagnostics_def List.map_filter_simps readFile_def)
    next
      case (Some b)
      then show ?thesis
        using True Cons.IH [of "newImages @ [''data:'' @
               (if file_type f = [] then ''application/octet-stream'' else file_type f) @
               '';base64,'' @ b]" out]
        by (simp add: acceptedImages_def diagnostics_def List.map_filter_simps readFile_def)
    qed
  qed
qed

text \<open>
  Claim C6, as stated, fails. A batch of one file of image type whose read fails yields
  no image and one console entry; afterwards the error slot is empty, although it held
  a message before.
\<close>

theorem empty_batch_error_counterexample:
  "acceptedImages [unreadablePng] = [] \<and>
   snd (handleCharacterFiles (Some [unreadablePng]) staleApp) =
     [Error ''Failed to read file'' ''a.png''] \<and>
   error (fst (handleCharacterFiles (Some [unreadablePng]) staleApp)) = None"
  by (simp add: handleCharacterFiles_def unreadablePng_def staleApp_def readFile_def
      startsWith_def acceptedImages_def List.map_filter_simps)

text \<open>
  Claim C6, amended. For every list of files, exactly the files whose declared type
  indicates an image and whose read succeeds are appended to the character images, in the
  order given; every file of image type whose read fails is skipped with one console
  entry and does not stop the batch; and the error slot is empty afterwards, whether or
  not the batch yields any image.
\<close>

theorem character_files_appended:
  "handleCharacterFiles (Some fs) s =
     (s\<lparr>error := None, characterImages := characterImages s @ acceptedImages fs\<rparr>,
      diagnostics fs)"
  by (cases "acceptedImages fs = []")
    (simp_all add: handleCharacterFiles_def readCharacterFiles_acc Let_def)

text \<open>
  Claim C7. A file whose declared type is not an image type sets the validation message
  in the error slot and leaves the pose reference as it is. A file of image type whose
  read succeeds replaces the pose reference by its data URL and clears the error slot.
\<close>

theorem pose_file_validated:
  "(\<not> startsWith (file_type f) ''image/'' \<longrightarrow>
      handlePoseFile (Some f) s =
        (s\<lparr>error := Some ''Please upload a valid image file.''\<rparr>, None) \<and>
      poseImage (fst (handlePoseFile (Some f) s)) = poseImage s) \<and>
   (startsWith (file_type f) ''image/'' \<longrightarrow> readFile f = Inr dataUrl \<longrightarrow>
      handlePoseFile (Some f) s = (s\<lparr>poseImage := Some dataUrl, error := None\<rparr>, None))"
  by (simp add: handlePoseFile_def)

theorem pose_file_validated_witness:
  "\<not> startsWith (file_type textFile) ''image/'' \<and>
   handlePoseFile (Some textFile) staleApp =
     (staleApp\<lparr>error := Some ''Please upload a valid image file.''\<rparr>, None) \<and>
   poseImage (fst (handlePoseFile (Some textFile) staleApp)) = Some ''p'' \<and>
   startsWith (file_type pngFile) ''image/'' \<and>
   readFile pngFile = Inr ''data:image/png;base64,iVBORw0K'' \<and>
   handlePoseFile (Some pngFile) staleApp =
     (staleApp\<lparr>poseImage := Some ''data:image/png;base64,iVBORw0K'', error := None\<rparr>, None)"
proof -
  have t: "\<not> startsWith (file_type textFile) ''image/''"
    by (simp add: textFile_def startsWith_def)
  have p: "startsWith (file_type pngFile) ''image/''"
    by (simp add: pngFile_def startsWith_def)
  have r: "readFile pngFile = Inr ''data:image/png;base64,iVBORw0K''"
    by (simp add: pngFile_def readFile_def)
  show ?thesis
    using pose_file_validated [where f = textFile and s = staleApp]
      pose_file_validated [where f = pngFile and s = staleApp
        and dataUrl = "''data:image/png;base64,iVBORw0K''"] t p r
    by (simp add: staleApp_def)
qed

text \<open>
  Claim C8 at a GIF character image. The upload handler accepts the file, since its type
  starts with image/, and stores its data URL. The pattern of the service names only
  png, jpeg, jpg and webp, so the prefix stays: the inline part sent to the remote model,
  for any remote capability and any schedule, holds the whole data URL (declared as
  image/png), not the bare base64 payload.
\<close>

theorem gif_prefix_not_stripped:
  "characterImages (fst (handleCharacterFiles (Some [gifFile]) initialApp)) =
     [''data:image/gif;base64,R0lGODlh''] \<and>
   hd (tl (parts (hd (remoteCalls (handleGenerate rem schedule
      (fst (handlePoseFile (Some pngFile)
         (fst (handleCharacterFiles (Some [gifFile]) initialApp))))))))) =
     InlineData \<lparr>mimeType = ''image/png'', data = ''data:image/gif;base64,R0lGODlh''\<rparr>"
proof -
  have c: "handleCharacterFiles (Some [gifFile]) initialApp =
      (initialApp\<lparr>characterImages := [''data:image/gif;base64,R0lGODlh'']\<rparr>, [])"
    by (simp add: handleCharacterFiles_def gifFile_def initialApp_def readFile_def
        startsWith_def)
  have p: "fst (handlePoseFile (Some pngFile)
        (initialApp\<lparr>characterImages := [''data:image/gif;base64,R0lGODlh'']\<rparr>)) =
      initialApp\<lparr>characterImages := [''data:image/gif;base64,R0lGODlh''],
        poseImage := Some ''data:image/png;base64,iVBORw0K''\<rparr>"
    by (simp add: handlePoseFile_def pngFile_def initialApp_def readFile_def startsWith_def)
  have g: "remoteCalls (handleGenerate rem schedule
        (initialApp\<lparr>characterImages := [''data:image/gif;base64,R0lGODlh''],
          poseImage := Some ''data:image/png;base64,iVBORw0K''\<rparr>)) =
      replicate 10 (payload [''data:image/gif;base64,R0lGODlh'']
        ''data:image/png;base64,iVBORw0K'' [])"
    using remoteCalls_dispatched [where s = "initialApp\<lparr>characterImages :=
        [''data:image/gif;base64,R0lGODlh''],
        poseImage := Some ''data:image/png;base64,iVBORw0K''\<rparr>"
        and p = "''data:image/png;base64,iVBORw0K''" and rem = rem and schedule = schedule]
    by (simp add: initialApp_def)
  have s: "stripDataUrl ''data:image/gif;base64,R0lGODlh'' = ''data:image/gif;base64,R0lGODlh''"
    by (simp add: stripDataUrl_def dataUrlPrefixes_def startsWith_def)
  show ?thesis
    unfolding c fst_conv p g
    by (simp add: payload_def s)
qed


section \<open>Properties of the drawing canvas\<close>

subsection \<open>Rounding to the nearest double\<close>

lemma roundTiesToEven_error: "\<bar>of_int (roundTiesToEven y) - y\<bar> \<le> 1 / 2"
proof -
  have "of_int \<lfloor>y\<rfloor> \<le> y" "y < of_int \<lfloor>y\<rfloor> + 1"
    by linarith+
  then show ?thesis
    by (auto simp: roundTiesToEven_def Let_def)
qed

lemma of_int_bitlen_bounds:
  assumes "0 < p"
  shows "(2::rat) powi (bitlen p - 1) \<le> of_int p" "of_int p < (2::rat) powi bitlen p"
proof -
  from assms have b: "1 \<le> bitlen p"
    using bitlen_eq_zero_iff [of p] bitlen_nonneg [of p] by linarith
  from bitlen_bounds [OF assms]
  have l: "2 ^ nat (bitlen p - 1) \<le> p" and u: "p < 2 ^ nat (bitlen p)"
    by simp_all
  from l have "(of_int (2 ^ nat (bitlen p - 1)) :: rat) \<le> of_int p"
    by (simp only: of_int_le_iff)
  then show "(2::rat) powi (bitlen p - 1) \<le> of_int p"
    using b by (simp add: power_int_def)
  from u have "(of_int p :: rat) < of_int (2 ^ nat (bitlen p))"
    by (simp only: of_int_less_iff)
  then show "of_int p < (2::rat) powi bitlen p"
    using b by (simp add: power_int_def)
qed

lemma exponent_bounds:
  assumes "x \<noteq> 0"
  shows "2 powi exponent x \<le> \<bar>x\<bar>" "\<bar>x\<bar> < 2 powi (exponent x + 1)"
proof -
  obtain p q where pq: "quotient_of \<bar>x\<bar> = (p, q)"
    by (cases "quotient_of \<bar>x\<bar>")
  then have q: "0 < q" and x: "\<bar>x\<bar> = of_int p / of_int q"
    by (simp_all add: quotient_of_denom_pos quotient_of_div)
  from assms have "0 < \<bar>x\<bar>" by simp
  with x q have p: "0 < p"
    by (simp add: zero_less_divide_iff)
  let ?k = "bitlen p - bitlen q"
  have e: "exponent x = (if 2 powi ?k \<le> \<bar>x\<bar> then ?k else ?k - 1)"
    by (simp add: exponent_def pq Let_def)
  have qpos: "(0::rat) < of_int q" using q by simp
  have up: "\<bar>x\<bar> < 2 powi (?k + 1)"
  proof -
    have "of_int p < (2::rat) powi bitlen p"
      by (rule of_int_bitlen_bounds [OF p])
    also have "\<dots> = 2 powi (?k + 1) * 2 powi (bitlen q - 1)"
      by (simp flip: power_int_add)
    also have "\<dots> \<le> 2 powi (?k + 1) * of_int q"
      by (rule mult_left_mono) (simp_all add: of_int_bitlen_bounds [OF q])
    finally show ?thesis
      using qpos by (simp add: x pos_divide_less_eq)
  qed
  have lo: "2 powi (?k - 1) \<le> \<bar>x\<bar>"
  proof -
    have "(2::rat) powi (?k - 1) * of_int q \<le> 2 powi (?k - 1) * 2 powi bitlen q"
      by (rule mult_left_mono)
        (use of_int_bitlen_bounds(2) [OF q] in \<open>simp_all add: less_imp_le\<close>)
    also have "\<dots> = 2 powi (bitlen p - 1)"
      by (simp flip: power_int_add)
    also have "\<dots> \<le> of_int p"
      by (rule of_int_bitlen_bounds [OF p])
    finally show ?thesis
      using qpos by (simp add: x pos_le_divide_eq)
  qed
  show "2 powi exponent x \<le> \<bar>x\<bar>"
    using lo by (simp add: e)
  show "\<bar>x\<bar> < 2 powi (exponent x + 1)"
    using up by (auto simp: e not_le)
qed

lemma toDouble_normal:
  assumes lo: "2 powi (- 1022) \<le> \<bar>x\<bar>" and hi: "\<bar>x\<bar> \<le> 2 powi 1023"
  shows "\<exists>r. toDouble x = Num r \<and> \<bar>r - x\<bar> \<le> \<bar>x\<bar> / 2 ^ 53"
proof -
  have "(0::rat) < 2 powi (- 1022)"
    by (rule zero_less_power_int) simp
  with lo have x: "x \<noteq> 0" by auto
  let ?e = "exponent x"
  have e: "- 1022 \<le> ?e"
  proof (rule ccontr)
    assume "\<not> - 1022 \<le> ?e"
    then have "?e + 1 \<le> - 1022" by simp
    then have "(2::rat) powi (?e + 1) \<le> 2 powi (- 1022)"
      by (rule power_int_increasing) simp
    with exponent_bounds(2) [OF x] lo show False by linarith
  qed
  define q :: rat where "q = 2 powi (?e - 52)"
  define r where "r = of_int (roundTiesToEven (x / q)) * q"
  have q: "0 < q"
    unfolding q_def by (rule zero_less_power_int) simp
  have "r - x = (of_int (roundTiesToEven (x / q)) - x / q) * q"
    using q by (simp add: r_def algebra_simps)
  then have "\<bar>r - x\<bar> = \<bar>of_int (roundTiesToEven (x / q)) - x / q\<bar> * q"
    using q by (simp add: abs_mult)
  also have "\<dots> \<le> 1 / 2 * q"
    by (rule mult_right_mono) (use q roundTiesToEven_error [of "x / q"] in simp_all)
  also have "1 / 2 * q = 2 powi ?e / 2 ^ 53"
  proof -
    have "q = 2 powi ?e / 2 powi 52"
      unfolding q_def by (rule power_int_diff) simp
    then show ?thesis by simp
  qed
  also have "\<dots> \<le> \<bar>x\<bar> / 2 ^ 53"
    by (rule divide_right_mono) (use exponent_bounds(1) [OF x] in simp_all)
  finally have err: "\<bar>r - x\<bar> \<le> \<bar>x\<bar> / 2 ^ 53" .
  have "\<bar>r\<bar> \<le> \<bar>x\<bar> + \<bar>r - x\<bar>"
    by linarith
  also have "\<dots> \<le> \<bar>x\<bar> + \<bar>x\<bar> / 2 ^ 53"
    using err by simp
  also have "\<dots> < \<bar>x\<bar> * 2"
    using x by simp
  also have "\<dots> \<le> 2 powi 1023 * 2"
    using hi by simp
  also have "\<dots> = 2 powi 1024"
    using power_int_add [of "2::rat" 1023 1] by simp
  finally have "\<not> 2 powi 1024 \<le> \<bar>r\<bar>"
    by simp
  moreover have "max ?e (- 1022) = ?e"
    using e by simp
  ultimately have "toDouble x = Num r"
    using x unfolding toDouble_def Let_def r_def q_def by simp
  with err show ?thesis by blast
qed

lemma exponent_unique:
  assumes lo: "2 powi e \<le> \<bar>x\<bar>" and hi: "\<bar>x\<bar> < 2 powi (e + 1)"
  shows "exponent x = e"
proof -
  have "(0::rat) < 2 powi e"
    by (rule zero_less_power_int) simp
  with lo have "0 < \<bar>x\<bar>" by linarith
  then have x: "x \<noteq> 0" by simp
  have "\<not> exponent x < e"
  proof
    assume "exponent x < e"
    then have "exponent x + 1 \<le> e" by simp
    then have "(2::rat) powi (exponent x + 1) \<le> 2 powi e"
      by (rule power_int_increasing) simp
    with exponent_bounds(2) [OF x] lo show False by linarith
  qed
  moreover have "\<not> e < exponent x"
  proof
    assume "e < exponent x"
    then have "e + 1 \<le> exponent x" by simp
    then have "(2::rat) powi (e + 1) \<le> 2 powi exponent x"
      by (rule power_int_increasing) simp
    with exponent_bounds(1) [OF x] hi show False by linarith
  qed
  ultimately show ?thesis by simp
qed

lemma toDouble_eval:
  assumes lo: "2 powi e \<le> \<bar>x\<bar>" and hi: "\<bar>x\<bar> < 2 powi (e + 1)"
    and e: "- 1022 \<le> e" "e \<le> 1022"
  shows "toDouble x = Num (of_int (roundTiesToEven (x / 2 powi (e - 52))) * 2 powi (e - 52))"
proof -
  have ex: "exponent x = e"
    by (rule exponent_unique [OF lo hi])
  have "(2::rat) powi (- 1022) \<le> 2 powi e"
    by (rule power_int_increasing) (use e in simp_all)
  with lo have n1: "2 powi (- 1022) \<le> \<bar>x\<bar>" by linarith
  have "(2::rat) powi (e + 1) \<le> 2 powi 1023"
    by (rule power_int_increasing) (use e in simp_all)
  with hi have n2: "\<bar>x\<bar> \<le> 2 powi 1023" by linarith
  from toDouble_normal [OF n1 n2] obtain r where r: "toDouble x = Num r"
    by blast
  have "(0::rat) < 2 powi e"
    by (rule zero_less_power_int) simp
  with lo have "0 < \<bar>x\<bar>" by linarith
  then have x: "x \<noteq> 0" by simp
  have m: "max e (- 1022) = e" using e by simp
  from r show ?thesis
    unfolding toDouble_def Let_def ex m using x by (simp split: if_splits)
qed

lemma inRange_between:
  assumes "2 powi a \<le> \<bar>t\<bar>" "\<bar>t\<bar> \<le> 2 powi b" "- 1000 \<le> a" "b \<le> 1000"
  shows "inRange t"
proof -
  have "(2::rat) powi (- 1000) \<le> 2 powi a" "(2::rat) powi b \<le> 2 powi 1000"
    by (rule power_int_increasing; use assms in simp)+
  with assms show ?thesis
    unfolding inRange_def by linarith
qed

lemma floor_numeral_divide:
  "\<lfloor>(numeral a :: rat) / numeral b\<rfloor> = numeral a div numeral b"
  using floor_divide_of_int_eq [of "numeral a" "numeral b", where ?'a = rat] by simp

lemma toDouble_zero: "toDouble 0 = Num 0"
  by (simp add: toDouble_def)

lemma closeTo_zero: "closeTo (Num 0) 0"
  by (simp add: closeTo_def)

lemma powi_1000_bounds:
  "(2::rat) powi (- 1022) \<le> 2 powi (- 1001)" "(2::rat) powi 1001 \<le> 2 powi 1023"
  "(2::rat) powi (- 1022) \<le> 2 powi (- 1000)" "(2::rat) powi 1000 \<le> 2 powi 1023"
  "(2::rat) powi (- 1001) * 2 = 2 powi (- 1000)" "(2::rat) powi 1000 * 2 = 2 powi 1001"
proof -
  show "(2::rat) powi (- 1022) \<le> 2 powi (- 1001)" by (rule power_int_increasing) simp_all
  show "(2::rat) powi 1001 \<le> 2 powi 1023" by (rule power_int_increasing) simp_all
  show "(2::rat) powi (- 1022) \<le> 2 powi (- 1000)" by (rule power_int_increasing) simp_all
  show "(2::rat) powi 1000 \<le> 2 powi 1023" by (rule power_int_increasing) simp_all
  show "(2::rat) powi (- 1001) * 2 = 2 powi (- 1000)"
    using power_int_add [of "2::rat" "- 1001" 1] by simp
  show "(2::rat) powi 1000 * 2 = 2 powi 1001"
    using power_int_add [of "2::rat" 1000 1] by simp
qed

lemma rescale_close:
  assumes d: "d \<noteq> 0" and t: "inRange (w / d)" and p: "inRange (x * w / d)"
  shows "closeTo (jsmul (Num x) (jsdiv w d)) (x * w / d)"
proof (cases "w / d = 0")
  case True
  then have a: "jsmul (Num x) (jsdiv w d) = Num 0" and b: "x * w / d = 0"
    using d by (auto simp: jsmul_def jsdiv_def toDouble_zero)
  show ?thesis
    unfolding a b by (rule closeTo_zero)
next
  case False
  define u :: rat where "u = 1 / 2 ^ 53"
  have u: "0 < u" "u \<le> 1 / 2" by (simp_all add: u_def)
  from False t have tr: "2 powi (- 1000) \<le> \<bar>w / d\<bar>" "\<bar>w / d\<bar> \<le> 2 powi 1000"
    by (simp_all add: inRange_def)
  have "\<exists>c. toDouble (w / d) = Num c \<and> \<bar>c - w / d\<bar> \<le> \<bar>w / d\<bar> / 2 ^ 53"
    by (rule toDouble_normal) (use tr powi_1000_bounds in linarith)+
  then obtain c where c: "toDouble (w / d) = Num c" and ce: "\<bar>c - w / d\<bar> \<le> \<bar>w / d\<bar> * u"
    by (auto simp: u_def)
  have prod: "jsmul (Num x) (jsdiv w d) = toDouble (x * c)"
    using d c by (simp add: jsmul_def jsdiv_def)
  show ?thesis
  proof (cases "x = 0")
    case True
    with prod have a: "jsmul (Num x) (jsdiv w d) = Num 0" and b: "x * w / d = 0"
      by (simp_all add: toDouble_zero)
    show ?thesis
      unfolding a b by (rule closeTo_zero)
  next
    case x: False
    define A where "A = x * c"
    define B where "B = x * w / d"
    define T where "T = \<bar>B\<bar>"
    define K where "K = T * u"
    from x False p have pr: "2 powi (- 1000) \<le> T" "T \<le> 2 powi 1000"
      by (simp_all add: inRange_def T_def B_def)
    have "\<bar>A - B\<bar> = \<bar>x\<bar> * \<bar>c - w / d\<bar>"
      unfolding A_def B_def
      by (simp add: abs_mult flip: right_diff_distrib times_divide_eq_right)
    also have "\<dots> \<le> \<bar>x\<bar> * (\<bar>w / d\<bar> * u)"
      by (rule mult_left_mono) (use ce in simp_all)
    also have "\<dots> = K"
      by (simp add: K_def T_def B_def abs_mult)
    finally have D: "\<bar>A - B\<bar> \<le> K" .
    have T0: "0 \<le> T" by (simp add: T_def)
    have "T * u \<le> T * (1 / 2)"
      by (rule mult_left_mono) (use u T0 in simp_all)
    then have K: "K \<le> T / 2" "0 \<le> K"
      using T0 u by (simp_all add: K_def)
    have xc_hi: "\<bar>A\<bar> \<le> T + K"
      using D unfolding T_def by linarith
    have xc_lo: "T - K \<le> \<bar>A\<bar>"
      using D unfolding T_def by linarith
    have n1: "2 powi (- 1022) \<le> \<bar>A\<bar>"
      using xc_lo K pr(1) powi_1000_bounds(1,5) by linarith
    have n2: "\<bar>A\<bar> \<le> 2 powi 1023"
      using xc_hi K pr(2) powi_1000_bounds(2,6) by linarith
    have "\<exists>r. toDouble A = Num r \<and> \<bar>r - A\<bar> \<le> \<bar>A\<bar> / 2 ^ 53"
      by (rule toDouble_normal [OF n1 n2])
    then obtain r where r: "toDouble A = Num r" and re: "\<bar>r - A\<bar> \<le> \<bar>A\<bar> * u"
      by (auto simp: u_def)
    have "\<bar>A\<bar> * u \<le> (T + K) * u"
      by (rule mult_right_mono) (use xc_hi u in simp_all)
    with re have E: "\<bar>r - A\<bar> \<le> (T + K) * u"
      by linarith
    have "\<bar>r - B\<bar> \<le> \<bar>r - A\<bar> + \<bar>A - B\<bar>"
      by linarith
    also have "\<dots> \<le> (T + K) * u + K"
      using E D by linarith
    also have "\<dots> = (1 / 2 ^ 52 + 1 / 2 ^ 106) * T"
      by (simp add: K_def u_def algebra_simps)
    finally have "\<bar>r - B\<bar> \<le> (1 / 2 ^ 52 + 1 / 2 ^ 106) * \<bar>B\<bar>"
      by (simp add: T_def)
    then show ?thesis
      using prod r by (simp add: closeTo_def A_def B_def)
  qed
qed


subsection \<open>The rescaling of pointer coordinates\<close>

lemma quotient_512_98: "jsdiv 512 98 = Num (5882252574524729 / 1125899906842624)"
  using toDouble_eval [of 2 "512 / 98"]
  by (simp add: jsdiv_def roundTiesToEven_def Let_def power_int_minus floor_numeral_divide)

lemma product_49_512_98: "jsmul (Num 49) (jsdiv 512 98) = Num (256 - 1 / 2 ^ 45)"
  using toDouble_eval [of 7 "49 * (5882252574524729 / 1125899906842624)"]
  by (simp add: quotient_512_98 jsmul_def roundTiesToEven_def Let_def power_int_minus
      floor_numeral_divide)

lemma quotient_512_196: "jsdiv 512 196 = Num (5882252574524729 / 2251799813685248)"
  using toDouble_eval [of 1 "512 / 196"]
  by (simp add: jsdiv_def roundTiesToEven_def Let_def power_int_minus floor_numeral_divide)

lemma product_49_512_196: "jsmul (Num 49) (jsdiv 512 196) = Num (128 - 1 / 2 ^ 46)"
  using toDouble_eval [of 6 "49 * (5882252574524729 / 2251799813685248)"]
  by (simp add: quotient_512_196 jsmul_def roundTiesToEven_def Let_def power_int_minus
      floor_numeral_divide)

lemma difference_59_10: "jssub 59 10 = Num 49"
  using toDouble_eval [of 5 49]
  by (simp add: jssub_def roundTiesToEven_def Let_def power_int_minus floor_numeral_divide)

lemma difference_69_20: "jssub 69 20 = Num 49"
  using toDouble_eval [of 5 49]
  by (simp add: jssub_def roundTiesToEven_def Let_def power_int_minus floor_numeral_divide)

lemma initialized:
  "initialize 512 512 True (mounted True) =
     \<lparr>canvasRef = True, ctxRef = True, isDrawing = False, hasContent = False,
      performed = [SetWidth 512, SetHeight 512, SetLineCap ''round'', SetLineJoin ''round'',
        SetStrokeStyle ''white'', SetLineWidth 8, SetFillStyle ''#000000'',
        FillRect 0 0 512 512]\<rparr>"
  by (simp add: initialize_def mounted_def Let_def)

text \<open>
  Claim C5, as stated, fails. On a canvas with a buffer of 512 by 512 displayed at 98 by
  196, a mouse press at the display coordinate (49, 49) passes
  \<open>(256 - 2 powi (- 45), 128 - 2 powi (- 46))\<close> to \<open>startDrawing\<close>: the quotients
  512 / 98 and 512 / 196 are rounded, and so are their products with 49. The exact
  coordinate is (256, 128).
\<close>

theorem rescaled_exactly_counterexample:
  "performed (handleMouseDown 512 512 displayed98by196 \<lparr>offsetX = 49, offsetY = 49\<rparr>
      (initialize 512 512 True (mounted True))) =
     performed (initialize 512 512 True (mounted True)) @
       [BeginPath, MoveTo (Num (256 - 1 / 2 ^ 45)) (Num (128 - 1 / 2 ^ 46))] \<and>
   Num (256 - 1 / 2 ^ 45) \<noteq> Num (49 * 512 / 98) \<and>
   Num (128 - 1 / 2 ^ 46) \<noteq> Num (49 * 512 / 196)"
proof -
  have "handleMouseDown 512 512 displayed98by196 \<lparr>offsetX = 49, offsetY = 49\<rparr>
      (initialize 512 512 True (mounted True)) =
    startDrawing (Num (256 - 1 / 2 ^ 45)) (Num (128 - 1 / 2 ^ 46))
      (initialize 512 512 True (mounted True))"
    unfolding handleMouseDown_def Let_def displayed98by196_def
    by (simp add: initialized product_49_512_98 product_49_512_196)
  then show ?thesis
    by (simp add: startDrawing_def initialized)
qed

text \<open>
  Claim C5, amended. With a canvas element in place and a displayed size that is not
  zero, the mouse handlers pass to \<open>startDrawing\<close> and \<open>draw\<close> the coordinate
  \<open>(offsetX \<otimes> (width \<oslash> displayedWidth), offsetY \<otimes> (height \<oslash> displayedHeight))\<close>,
  and the touch handlers the same with \<open>clientX \<ominus> left\<close> and \<open>clientY \<ominus> top\<close> as the
  display coordinate \<open>(x, y)\<close>, where \<open>\<otimes>\<close>, \<open>\<oslash>\<close> and \<open>\<ominus>\<close> are the operations on
  doubles. When the quotients and the exact coordinate are in range, the coordinate passed
  is finite and within the relative error \<open>2 powi (- 52) + 2 powi (- 106)\<close> of
  \<open>(x \<cdot> width / displayedWidth, y \<cdot> height / displayedHeight)\<close>.
\<close>

theorem pointer_coordinates_rounded:
  "canvasRef s \<Longrightarrow> rect_width rect \<noteq> 0 \<Longrightarrow> rect_height rect \<noteq> 0 \<Longrightarrow>
   inRange (w / rect_width rect) \<Longrightarrow> inRange (h / rect_height rect) \<Longrightarrow>
   (let mx = jsmul (Num (offsetX e)) (jsdiv w (rect_width rect));
        my = jsmul (Num (offsetY e)) (jsdiv h (rect_height rect));
        tx = jsmul (jssub (clientX t) (rect_left rect)) (jsdiv w (rect_width rect));
        ty = jsmul (jssub (clientY t) (rect_top rect)) (jsdiv h (rect_height rect))
    in handleMouseDown w h rect e s = startDrawing mx my s \<and>
       handleMouseMove w h rect e s = draw mx my s \<and>
       handleTouchStart w h rect \<lparr>touches = t # ts\<rparr> s = startDrawing tx ty s \<and>
       handleTouchMove w h rect \<lparr>touches = t # ts\<rparr> s = draw tx ty s \<and>
       (inRange (offsetX e * w / rect_width rect) \<longrightarrow>
          closeTo mx (offsetX e * w / rect_width rect)) \<and>
       (inRange (offsetY e * h / rect_height rect) \<longrightarrow>
          closeTo my (offsetY e * h / rect_height rect)) \<and>
       (jssub (clientX t) (rect_left rect) = Num x \<longrightarrow> inRange (x * w / rect_width rect) \<longrightarrow>
          closeTo tx (x * w / rect_width rect)) \<and>
       (jssub (clientY t) (rect_top rect) = Num y \<longrightarrow> inRange (y * h / rect_height rect) \<longrightarrow>
          closeTo ty (y * h / rect_height rect)))"
proof -
  assume c: "canvasRef s"
    and rw: "rect_width rect \<noteq> 0" and rh: "rect_height rect \<noteq> 0"
    and qw: "inRange (w / rect_width rect)" and qh: "inRange (h / rect_height rect)"
  have handlers:
    "handleMouseDown w h rect e s =
       startDrawing (jsmul (Num (offsetX e)) (jsdiv w (rect_width rect)))
         (jsmul (Num (offsetY e)) (jsdiv h (rect_height rect))) s"
    "handleMouseMove w h rect e s =
       draw (jsmul (Num (offsetX e)) (jsdiv w (rect_width rect)))
         (jsmul (Num (offsetY e)) (jsdiv h (rect_height rect))) s"
    "handleTouchStart w h rect \<lparr>touches = t # ts\<rparr> s =
       startDrawing (jsmul (jssub (clientX t) (rect_left rect)) (jsdiv w (rect_width rect)))
         (jsmul (jssub (clientY t) (rect_top rect)) (jsdiv h (rect_height rect))) s"
    "handleTouchMove w h rect \<lparr>touches = t # ts\<rparr> s =
       draw (jsmul (jssub (clientX t) (rect_left rect)) (jsdiv w (rect_width rect)))
         (jsmul (jssub (clientY t) (rect_top rect)) (jsdiv h (rect_height rect))) s"
    using c
    by (simp_all add: handleMouseDown_def handleMouseMove_def handleTouchStart_def
        handleTouchMove_def Let_def)
  have close_w: "closeTo (jsmul (Num a) (jsdiv w (rect_width rect))) (a * w / rect_width rect)"
    if "inRange (a * w / rect_width rect)" for a
    by (rule rescale_close [OF rw qw that])
  have close_h: "closeTo (jsmul (Num a) (jsdiv h (rect_height rect))) (a * h / rect_height rect)"
    if "inRange (a * h / rect_height rect)" for a
    by (rule rescale_close [OF rh qh that])
  show ?thesis
    unfolding Let_def
    by (intro conjI impI handlers) (simp_all add: close_w close_h)
qed

theorem pointer_coordinates_rounded_witness:
  "canvasRef (initialize 512 512 True (mounted True)) \<and>
   rect_width displayed98by196 \<noteq> 0 \<and> rect_height displayed98by196 \<noteq> 0 \<and>
   inRange (512 / rect_width displayed98by196) \<and>
   inRange (512 / rect_height displayed98by196) \<and>
   inRange (49 * 512 / rect_width displayed98by196) \<and>
   inRange (49 * 512 / rect_height displayed98by196) \<and>
   jssub 59 (rect_left displayed98by196) = Num 49 \<and>
   jssub 69 (rect_top displayed98by196) = Num 49 \<and>
   handleMouseDown 512 512 displayed98by196 \<lparr>offsetX = 49, offsetY = 49\<rparr>
       (initialize 512 512 True (mounted True)) =
     startDrawing (Num (256 - 1 / 2 ^ 45)) (Num (128 - 1 / 2 ^ 46))
       (initialize 512 512 True (mounted True)) \<and>
   handleTouchStart 512 512 displayed98by196 \<lparr>touches = [\<lparr>clientX = 59, clientY = 69\<rparr>]\<rparr>
       (initialize 512 512 True (mounted True)) =
     startDrawing (Num (256 - 1 / 2 ^ 45)) (Num (128 - 1 / 2 ^ 46))
       (initialize 512 512 True (mounted True)) \<and>
   closeTo (Num (256 - 1 / 2 ^ 45)) (49 * 512 / 98) \<and>
   closeTo (Num (128 - 1 / 2 ^ 46)) (49 * 512 / 196)"
proof -
  have c: "canvasRef (initialize 512 512 True (mounted True))"
    by (simp add: initialized)
  have r: "rect_width displayed98by196 \<noteq> 0" "rect_height displayed98by196 \<noteq> 0"
    by (simp_all add: displayed98by196_def)
  have q: "inRange (512 / rect_width displayed98by196)"
    "inRange (512 / rect_height displayed98by196)"
    using inRange_between [of 0 "512 / 98" 10] inRange_between [of 0 "512 / 196" 10]
    by (simp_all add: displayed98by196_def)
  have p: "inRange (49 * 512 / rect_width displayed98by196)"
    "inRange (49 * 512 / rect_height displayed98by196)"
    using inRange_between [of 0 "49 * 512 / 98" 10] inRange_between [of 0 "49 * 512 / 196" 10]
    by (simp_all add: displayed98by196_def)
  have d: "jssub 59 (rect_left displayed98by196) = Num 49"
    "jssub 69 (rect_top displayed98by196) = Num 49"
    by (simp_all add: displayed98by196_def difference_59_10 difference_69_20)
  have w: "rect_width displayed98by196 = 98" "rect_height displayed98by196 = 196"
    "rect_left displayed98by196 = 10" "rect_top displayed98by196 = 20"
    by (simp_all add: displayed98by196_def)
  note inst = pointer_coordinates_rounded [OF c r q,
      where e = "\<lparr>offsetX = 49, offsetY = 49\<rparr>" and t = "\<lparr>clientX = 59, clientY = 69\<rparr>"
        and ts = "[]" and x = 49 and y = 49, unfolded Let_def]
  show ?thesis
    using inst c r q p d
    by (simp add: w product_49_512_98 product_49_512_196 difference_59_10 difference_69_20)
qed

lemma isEmpty_mounted: "isEmpty (initialize w h getContext (mounted hasElement))"
  by (simp add: isEmpty_def initialize_def mounted_def Let_def)

lemma isEmpty_clearCanvas: "canvasRef s \<Longrightarrow> ctxRef s \<Longrightarrow> isEmpty (clearCanvas w h s)"
  by (simp add: isEmpty_def clearCanvas_def)

lemma not_isEmpty_startDrawing: "ctxRef s \<Longrightarrow> \<not> isEmpty (startDrawing x y s)"
  by (simp add: isEmpty_def startDrawing_def)

lemma isEmpty_draw: "isEmpty (draw x y s) = isEmpty s"
  by (simp add: isEmpty_def draw_def)

lemma isEmpty_stopDrawing: "isEmpty (stopDrawing s) = isEmpty s"
  by (simp add: isEmpty_def stopDrawing_def)

lemma isEmpty_initialize: "isEmpty (initialize w h getContext s) = isEmpty s"
  by (simp add: isEmpty_def initialize_def Let_def)


text \<open>
  Claim C9 at a run of the initialisation effect after a stroke. After mounting and the
  first run of the effect the canvas is empty. After one stroke, a change of the
  dimensions runs the effect again: it fills the new buffer with the background, as
  \<open>clearCanvas\<close> does, but unlike \<open>clearCanvas\<close> it leaves \<open>hasContent\<close> set, so
  \<open>isEmpty\<close> answers false for a blank buffer.
\<close>

theorem reinitialize_keeps_content_flag:
  "isEmpty (initialize 512 512 True (mounted True)) \<and>
   \<not> isEmpty (initialize 256 256 True
        (stopDrawing (draw (Num 20) (Num 20) (startDrawing (Num 10) (Num 10)
          (initialize 512 512 True (mounted True)))))) \<and>
   last (performed (initialize 256 256 True
        (stopDrawing (draw (Num 20) (Num 20) (startDrawing (Num 10) (Num 10)
          (initialize 512 512 True (mounted True))))))) = FillRect 0 0 256 256"
  by (simp add: mounted_def isEmpty_def initialize_def stopDrawing_def draw_def
      startDrawing_def Let_def)

theorem reinitialize_keeps_content_flag_witness:
  "hasContent (initialize 256 256 True
      (stopDrawing (draw (Num 20) (Num 20) (startDrawing (Num 10) (Num 10)
        (initialize 512 512 True (mounted True))))))"
  using reinitialize_keeps_content_flag by (simp add: isEmpty_def)

end
